theory Spec2Isabelle
  imports Main
begin

section \<open>Python values, objects and the world the adapter runs in\<close>

text \<open>
  The source is \<^verbatim>\<open>bentoml/frameworks/catboost.py\<close>: the class
  \<^verbatim>\<open>CatboostModelArtifact\<close> with the methods \<^verbatim>\<open>__init__\<close>,
  \<^verbatim>\<open>set_dependencies\<close>, \<^verbatim>\<open>_model_file_path\<close>, \<^verbatim>\<open>pack\<close>,
  \<^verbatim>\<open>load\<close>, \<^verbatim>\<open>save\<close> and \<^verbatim>\<open>get\<close>.

  Python values are references: object identity is equality of references. The objects
  live in a heap; a method takes the reference of its receiver (\<open>self\<close>) and the world,
  and returns its outcome (an exception or a value) together with the world it leaves.
\<close>

type_synonym ref = nat
type_synonym path = string

datatype pyval = PyNone | PyStr string | PyRef ref

datatype exn =
    MissingDependencyException string
  | InvalidArgument string
  | AttributeError string
  | CatBoostError string
  | FailedPrecondition

text \<open>
  A class is known by its identity; \<open>OtherClass\<close> stands for every class that is not
  \<^verbatim>\<open>catboost.core.CatBoostClassifier\<close>. An instance carries the method resolution
  order of its class (the class itself and all its bases), which is what
  \<^verbatim>\<open>isinstance\<close> consults, so an instance of a subclass of the classifier is an
  instance of the classifier.
\<close>

datatype pyclass = CatBoostClassifier | OtherClass string

text \<open>
  The fields of the adapter. \<open>u_model_extension\<close> and \<open>u_model\<close> are the attributes
  \<^verbatim>\<open>_model_extension\<close> and \<^verbatim>\<open>_model\<close> (an identifier cannot start with an
  underscore here).

  The class inherits from \<^verbatim>\<open>BentoServiceArtifact\<close>, which is not among the sources.
  Of the base class the model keeps two things. One is the \<open>name\<close>. The other is the
  guard through which every call of \<^verbatim>\<open>pack\<close>, \<^verbatim>\<open>load\<close>, \<^verbatim>\<open>save\<close> and
  \<^verbatim>\<open>get\<close> on an instance goes: \<open>is_ready\<close> says whether the adapter has been packed
  or loaded; \<^verbatim>\<open>pack\<close> and \<^verbatim>\<open>load\<close> set it when they return normally, and
  \<^verbatim>\<open>save\<close> and \<^verbatim>\<open>get\<close> on an adapter that is not ready raise
  \<^verbatim>\<open>FailedPrecondition\<close> before the method body runs. The text of that exception,
  the warnings the guard logs, its treatment of a \<^verbatim>\<open>metadata\<close> keyword argument
  and the check of the name in the base constructor are not modelled: \<^verbatim>\<open>pack\<close> takes
  its arguments by position and every name is admitted.
\<close>

record artifact =
  name :: string
  u_model_extension :: string
  u_model :: pyval
  is_ready :: bool

text \<open>
  A heap object is an adapter or an instance of some other class; the latter carries the
  method resolution order of its class and its internal state, which is opaque to the
  adapter (for a classifier: the trained model).
\<close>

datatype pyobj = Artifact artifact | Instance "pyclass list" string

text \<open>The calls the adapter makes into the catboost library, in the order they are made.\<close>

datatype call =
    Call_CatBoostClassifier ref
  | Call_load_model ref path string
  | Call_save_model ref path string

record world =
  heap :: "ref \<rightharpoonup> pyobj"
  next_ref :: ref
  fs :: "path \<rightharpoonup> string"
  catboost_importable :: bool
  calls :: "call list"

text \<open>
  The catboost library is external: its behaviour is a parameter. \<open>new_classifier\<close> is the
  state of \<^verbatim>\<open>CatBoostClassifier()\<close>; \<open>load_model\<close> reads the file system and gives
  the new state of the classifier or fails with a message; \<open>save_model\<close> gives its outcome
  (a message on failure) and the file system it leaves.
\<close>

record catboost_lib =
  new_classifier :: string
  load_model :: "string \<Rightarrow> (path \<rightharpoonup> string) \<Rightarrow> path \<Rightarrow> string \<Rightarrow> string + string"
  save_model :: "string \<Rightarrow> (path \<rightharpoonup> string) \<Rightarrow> path \<Rightarrow> string
                   \<Rightarrow> (string + pyval) \<times> (path \<rightharpoonup> string)"

text \<open>
  Modelled from the spec: \<^verbatim>\<open>BentoServiceEnv\<close> (the class is not among the sources),
  "the hosting environment object records declared dependencies".
\<close>

record bento_service_env =
  pip_packages :: "string list"

definition add_pip_packages :: "bento_service_env \<Rightarrow> string list \<Rightarrow> bento_service_env" where
  "add_pip_packages env pkgs = env\<lparr>pip_packages := pip_packages env @ pkgs\<rparr>"

section \<open>Library functions the adapter uses\<close>

definition startswith :: "string \<Rightarrow> string \<Rightarrow> bool" where
  "startswith s p = (take (length p) s = p)"

definition endswith :: "string \<Rightarrow> string \<Rightarrow> bool" where
  "endswith s p = (length p \<le> length s \<and> drop (length s - length p) s = p)"

text \<open>
  \<^verbatim>\<open>os.path.join(a, b)\<close> of the Python standard library on a POSIX system
  (\<^verbatim>\<open>posixpath.join\<close> with two arguments):
  \<^verbatim>\<open>
    if b.startswith(sep): path = b
    elif not path or path.endswith(sep): path += b
    else: path += sep + b
  \<close>
\<close>

definition os_path_join :: "path \<Rightarrow> path \<Rightarrow> path" where
  "os_path_join a b =
     (if startswith b ''/'' then b
      else if a = [] \<or> endswith a ''/'' then a @ b
      else a @ ''/'' @ b)"

text \<open>
  \<^verbatim>\<open>isinstance(v, cls)\<close>: \<open>cls\<close> is in the method resolution order of the class of
  \<open>v\<close>. \<^verbatim>\<open>None\<close>, a string and an adapter are instances of classes that do not derive
  from the classifier.
\<close>

definition isinstance :: "world \<Rightarrow> pyval \<Rightarrow> pyclass \<Rightarrow> bool" where
  "isinstance w v cls =
     (case v of
        PyRef r \<Rightarrow>
          (case heap w r of
             Some (Instance mro d) \<Rightarrow> cls \<in> set mro
           | _ \<Rightarrow> False)
      | _ \<Rightarrow> False)"

section \<open>The adapter\<close>

definition missing_dependency_msg :: string where
  "missing_dependency_msg = ''catboost package is required to use CatboostModelArtifact''"

definition invalid_argument_msg :: string where
  "invalid_argument_msg =
     ''Expect `model` argument to be a `catboost.core.CatBoostClassifier` instance''"

text \<open>
  \<^verbatim>\<open>__init__(self, name, model_extension=".json")\<close>: the new adapter is allocated at
  the next free reference; \<open>None\<close> for \<open>model_extension\<close> is the omitted argument. A new
  adapter is not ready.
\<close>

definition init :: "string \<Rightarrow> string option \<Rightarrow> world \<Rightarrow> ref \<times> world" where
  "init nm model_extension w =
     (let self = next_ref w;
          a = \<lparr>name = nm,
               u_model_extension = (case model_extension of None \<Rightarrow> ''.json'' | Some e \<Rightarrow> e),
               u_model = PyNone,
               is_ready = False\<rparr>
      in (self, w\<lparr>heap := (heap w)(self \<mapsto> Artifact a), next_ref := Suc self\<rparr>))"

text \<open>\<^verbatim>\<open>env.add_pip_packages(['catboost'])\<close>; the method returns \<^verbatim>\<open>None\<close>.\<close>

definition set_dependencies ::
    "ref \<Rightarrow> bento_service_env \<Rightarrow> world \<Rightarrow> (exn + pyval) \<times> bento_service_env \<times> world" where
  "set_dependencies self env w = (Inr PyNone, add_pip_packages env [''catboost''], w)"

text \<open>
  \<^verbatim>\<open>os.path.join(base_path, self.name + self._model_extension)\<close>. Reading an
  attribute of a receiver that does not have it raises \<^verbatim>\<open>AttributeError\<close>.
\<close>

definition model_file_path :: "ref \<Rightarrow> path \<Rightarrow> world \<Rightarrow> exn + path" where
  "model_file_path self base_path w =
     (case heap w self of
        Some (Artifact a) \<Rightarrow> Inr (os_path_join base_path (name a @ u_model_extension a))
      | _ \<Rightarrow> Inl (AttributeError ''name''))"

text \<open>
  The assignment \<^verbatim>\<open>self._model = v\<close>. A method is reached through an adapter, so
  the receiver is one; for any other receiver the model leaves the world as it is.
\<close>

definition set_model :: "ref \<Rightarrow> pyval \<Rightarrow> world \<Rightarrow> world" where
  "set_model self v w =
     (case heap w self of
        Some (Artifact a) \<Rightarrow> w\<lparr>heap := (heap w)(self \<mapsto> Artifact (a\<lparr>u_model := v\<rparr>))\<rparr>
      | _ \<Rightarrow> w)"

text \<open>
  The inherited guard. \<open>marks_ready\<close> wraps \<^verbatim>\<open>pack\<close> and \<^verbatim>\<open>load\<close>: when the
  method body returns normally the adapter becomes ready; an exception of the body
  propagates and leaves the flag alone. \<open>needs_ready\<close> wraps \<^verbatim>\<open>save\<close> and
  \<^verbatim>\<open>get\<close>: on an adapter that is not ready it raises \<^verbatim>\<open>FailedPrecondition\<close>
  in place of running the method body.
\<close>

definition set_ready :: "ref \<Rightarrow> world \<Rightarrow> world" where
  "set_ready self w =
     (case heap w self of
        Some (Artifact a) \<Rightarrow> w\<lparr>heap := (heap w)(self \<mapsto> Artifact (a\<lparr>is_ready := True\<rparr>))\<rparr>
      | _ \<Rightarrow> w)"

definition marks_ready :: "ref \<Rightarrow> (exn + pyval) \<times> world \<Rightarrow> (exn + pyval) \<times> world" where
  "marks_ready self body =
     (case body of
        (Inl e, w') \<Rightarrow> (Inl e, w')
      | (Inr v, w') \<Rightarrow> (Inr v, set_ready self w'))"

definition needs_ready ::
    "ref \<Rightarrow> world \<Rightarrow> (exn + pyval) \<times> world \<Rightarrow> (exn + pyval) \<times> world" where
  "needs_ready self w body =
     (case heap w self of
        Some (Artifact a) \<Rightarrow> if is_ready a then body else (Inl FailedPrecondition, w)
      | _ \<Rightarrow> (Inl (AttributeError ''is_ready''), w))"

text \<open>
  \<^verbatim>\<open>pack(self, model, metadata=None)\<close>: the import, then the type check, then the
  assignment; the result is \<^verbatim>\<open>self\<close>. Around the body, the inherited guard marks
  the adapter ready when the body returns.
\<close>

definition pack :: "ref \<Rightarrow> pyval \<Rightarrow> pyval \<Rightarrow> world \<Rightarrow> (exn + pyval) \<times> world" where
  "pack self model metadata w =
     marks_ready self
       (if \<not> catboost_importable w then
          (Inl (MissingDependencyException missing_dependency_msg), w)
        else if \<not> isinstance w model CatBoostClassifier then
          (Inl (InvalidArgument invalid_argument_msg), w)
        else (Inr (PyRef self), set_model self model w))"

text \<open>The class of a new \<^verbatim>\<open>CatBoostClassifier()\<close>: the classifier and its bases.\<close>

definition classifier_mro :: "pyclass list" where
  "classifier_mro =
     [CatBoostClassifier, OtherClass ''catboost.core.CatBoost'', OtherClass ''object'']"

text \<open>
  \<^verbatim>\<open>load(self, path)\<close>: the import; \<^verbatim>\<open>clf = CatBoostClassifier()\<close>;
  \<^verbatim>\<open>clf.load_model(self._model_file_path(path), "json")\<close>, whose failure
  propagates; \<^verbatim>\<open>return self.pack(clf)\<close>. Around the body, the inherited guard
  marks the adapter ready when the body returns.
\<close>

definition load :: "catboost_lib \<Rightarrow> ref \<Rightarrow> path \<Rightarrow> world \<Rightarrow> (exn + pyval) \<times> world" where
  "load lib self path w =
     marks_ready self
       (if \<not> catboost_importable w then
          (Inl (MissingDependencyException missing_dependency_msg), w)
        else
          let clf = next_ref w;
              w1 = w\<lparr>heap := (heap w)(clf \<mapsto> Instance classifier_mro (new_classifier lib)),
                     next_ref := Suc clf,
                     calls := calls w @ [Call_CatBoostClassifier clf]\<rparr>
          in case model_file_path self path w1 of
               Inl e \<Rightarrow> (Inl e, w1)
             | Inr p \<Rightarrow>
                 let w2 = w1\<lparr>calls := calls w1 @ [Call_load_model clf p ''json'']\<rparr>
                 in (case load_model lib (new_classifier lib) (fs w2) p ''json'' of
                       Inl msg \<Rightarrow> (Inl (CatBoostError msg), w2)
                     | Inr d \<Rightarrow>
                         pack self (PyRef clf) PyNone
                           (w2\<lparr>heap := (heap w2)(clf \<mapsto> Instance classifier_mro d)\<rparr>)))"

text \<open>
  \<^verbatim>\<open>save(self, dst)\<close>:
  \<^verbatim>\<open>return self._model.save_model(self._model_file_path(dst), format="json")\<close>.
  The attribute \<^verbatim>\<open>save_model\<close> is looked up on the held value first: \<^verbatim>\<open>None\<close>
  (and any value that is not a classifier) does not have it. There is no import in this
  method. The inherited guard lets the body run only on an adapter that is ready.
\<close>

definition save :: "catboost_lib \<Rightarrow> ref \<Rightarrow> path \<Rightarrow> world \<Rightarrow> (exn + pyval) \<times> world" where
  "save lib self dst w =
     needs_ready self w
       (case heap w self of
          Some (Artifact a) \<Rightarrow>
            (case u_model a of
               PyRef r \<Rightarrow>
                 (case heap w r of
                    Some (Instance mro d) \<Rightarrow>
                      if CatBoostClassifier \<in> set mro then
                        (case model_file_path self dst w of
                           Inl e \<Rightarrow> (Inl e, w)
                         | Inr p \<Rightarrow>
                             let w1 = w\<lparr>calls := calls w @ [Call_save_model r p ''json'']\<rparr>
                             in (case save_model lib d (fs w1) p ''json'' of
                                   (Inl msg, fs') \<Rightarrow> (Inl (CatBoostError msg), w1\<lparr>fs := fs'\<rparr>)
                                 | (Inr res, fs') \<Rightarrow> (Inr res, w1\<lparr>fs := fs'\<rparr>)))
                      else (Inl (AttributeError ''save_model''), w)
                  | _ \<Rightarrow> (Inl (AttributeError ''save_model''), w))
             | _ \<Rightarrow> (Inl (AttributeError ''save_model''), w))
        | _ \<Rightarrow> (Inl (AttributeError ''_model''), w))"

text \<open>
  \<^verbatim>\<open>get(self)\<close>: \<^verbatim>\<open>return self._model\<close>. The inherited guard lets the body
  run only on an adapter that is ready.
\<close>

definition get :: "ref \<Rightarrow> world \<Rightarrow> (exn + pyval) \<times> world" where
  "get self w =
     needs_ready self w
       (case heap w self of
          Some (Artifact a) \<Rightarrow> (Inr (u_model a), w)
        | _ \<Rightarrow> (Inl (AttributeError ''_model''), w))"

text \<open>
  What a run added to the log of library calls, and what the calls were given: the file
  path of a \<^verbatim>\<open>load_model\<close> or \<^verbatim>\<open>save_model\<close> call, and the format of a
  \<^verbatim>\<open>load_model\<close> call.
\<close>

definition new_calls :: "world \<Rightarrow> world \<Rightarrow> call list" where
  "new_calls w w' = drop (length (calls w)) (calls w')"

fun call_paths :: "call list \<Rightarrow> path list" where
  "call_paths [] = []"
| "call_paths (Call_CatBoostClassifier r # cs) = call_paths cs"
| "call_paths (Call_load_model r p f # cs) = p # call_paths cs"
| "call_paths (Call_save_model r p f # cs) = p # call_paths cs"

fun load_formats :: "call list \<Rightarrow> string list" where
  "load_formats [] = []"
| "load_formats (Call_load_model r p f # cs) = f # load_formats cs"
| "load_formats (c # cs) = load_formats cs"

section \<open>Concrete worlds for the instances below\<close>

text \<open>
  A library whose classifier state is the text of its file: loading reads the file
  (and fails when there is none), saving writes the state.
\<close>

definition text_lib :: catboost_lib where
  "text_lib =
     \<lparr>new_classifier = [],
      load_model = (\<lambda>d files p fmt.
         case files p of None \<Rightarrow> Inl ''no such file'' | Some c \<Rightarrow> Inr c),
      save_model = (\<lambda>d files p fmt. (Inr PyNone, files(p \<mapsto> d)))\<rparr>"

definition empty_world :: "bool \<Rightarrow> world" where
  "empty_world importable =
     \<lparr>heap = Map.empty, next_ref = 0, fs = Map.empty,
      catboost_importable = importable, calls = []\<rparr>"

text \<open>
  A world with a new adapter \<^verbatim>\<open>CatboostModelArtifact('model')\<close> at reference 0, a
  trained classifier at reference 1 and an object of another class at reference 2.
\<close>

definition demo_world :: "bool \<Rightarrow> world" where
  "demo_world importable =
     \<lparr>heap = [0 \<mapsto> Artifact \<lparr>name = ''model'', u_model_extension = ''.json'',
                              u_model = PyNone, is_ready = False\<rparr>,
              1 \<mapsto> Instance classifier_mro ''trees'',
              2 \<mapsto> Instance [OtherClass ''dict'', OtherClass ''object''] ''{}''],
      next_ref = 3, fs = Map.empty,
      catboost_importable = importable, calls = []\<rparr>"

section \<open>Properties\<close>

text \<open>The guard changes neither the log of library calls nor the file system.\<close>

lemma receiver_not_fresh:
  "heap w self = Some obj \<Longrightarrow> heap w (next_ref w) = None \<Longrightarrow> self \<noteq> next_ref w"
  by auto

lemma set_ready_calls: "calls (set_ready self w) = calls w"
  by (simp add: set_ready_def split: option.split pyobj.split)

lemma set_ready_fs: "fs (set_ready self w) = fs w"
  by (simp add: set_ready_def split: option.split pyobj.split)

lemma marks_ready_fst: "fst (marks_ready self body) = fst body"
  by (simp add: marks_ready_def split: prod.split sum.split)

lemma marks_ready_calls: "calls (snd (marks_ready self body)) = calls (snd body)"
  by (simp add: marks_ready_def set_ready_calls split: prod.split sum.split)

lemma marks_ready_fs: "fs (snd (marks_ready self body)) = fs (snd body)"
  by (simp add: marks_ready_def set_ready_fs split: prod.split sum.split)

lemma pack_calls: "calls (snd (pack self model metadata w)) = calls w"
  by (simp add: pack_def marks_ready_calls set_model_def split: option.split pyobj.split)

lemma pack_fs: "fs (snd (pack self model metadata w)) = fs w"
  by (simp add: pack_def marks_ready_fs set_model_def split: option.split pyobj.split)

text \<open>
  \<^verbatim>\<open>pack\<close> of a classifier, written out: the adapter holds it and is ready.
\<close>

lemma pack_classifier:
  assumes "catboost_importable w"
    and "heap w self = Some (Artifact a)"
    and "heap w r = Some (Instance mro d)"
    and "CatBoostClassifier \<in> set mro"
  shows "pack self (PyRef r) metadata w =
           (Inr (PyRef self),
            w\<lparr>heap := (heap w)(self \<mapsto> Artifact (a\<lparr>u_model := PyRef r, is_ready := True\<rparr>))\<rparr>)"
  using assms
  by (simp add: pack_def marks_ready_def set_ready_def set_model_def isinstance_def)

text \<open>What \<^verbatim>\<open>load\<close> does when the library is importable, step by step.\<close>

lemma load_unfolded:
  assumes "catboost_importable w"
    and "heap w self = Some (Artifact a)"
    and "heap w (next_ref w) = None"
  shows "load lib self path w =
     (let clf = next_ref w;
          p = os_path_join path (name a @ u_model_extension a);
          cs = calls w @ [Call_CatBoostClassifier clf, Call_load_model clf p ''json'']
      in case load_model lib (new_classifier lib) (fs w) p ''json'' of
           Inl msg \<Rightarrow>
             (Inl (CatBoostError msg),
              w\<lparr>heap := (heap w)(clf \<mapsto> Instance classifier_mro (new_classifier lib)),
                next_ref := Suc clf, calls := cs\<rparr>)
         | Inr d \<Rightarrow>
             pack self (PyRef clf) PyNone
               (w\<lparr>next_ref := Suc clf, calls := cs,
                  heap := (heap w)(clf \<mapsto> Instance classifier_mro d)\<rparr>))"
proof -
  have ne: "self \<noteq> next_ref w"
    using assms(2,3) by (rule receiver_not_fresh)
  have cm: "CatBoostClassifier \<in> set classifier_mro"
    by (simp add: classifier_mro_def)
  have again: "marks_ready self (pack self (PyRef (next_ref w)) PyNone w') =
                 pack self (PyRef (next_ref w)) PyNone w'"
    if "catboost_importable w'" and "heap w' self = Some (Artifact a)"
      and "heap w' (next_ref w) = Some (Instance classifier_mro d)" for w' d
    using ne by (simp add: pack_classifier [OF that cm] marks_ready_def set_ready_def)
  have raised: "marks_ready self (Inl e, w') = (Inl e, w')" for e w'
    by (simp add: marks_ready_def)
  show ?thesis
    using assms(1,2) ne
    by (simp add: load_def model_file_path_def Let_def again raised split: sum.split)
qed

lemma load_calls:
  assumes "catboost_importable w"
    and "heap w self = Some (Artifact a)"
    and "heap w (next_ref w) = None"
  shows "new_calls w (snd (load lib self path w)) =
           [Call_CatBoostClassifier (next_ref w),
            Call_load_model (next_ref w) (os_path_join path (name a @ u_model_extension a))
              ''json'']"
  by (simp add: load_unfolded [OF assms] new_calls_def Let_def pack_calls split: sum.split)

lemma load_new_calls_cases:
  "new_calls w (snd (load lib self path w)) = []
   \<or> new_calls w (snd (load lib self path w)) = [Call_CatBoostClassifier (next_ref w)]
   \<or> (\<exists>p. new_calls w (snd (load lib self path w)) =
             [Call_CatBoostClassifier (next_ref w), Call_load_model (next_ref w) p ''json''])"
  by (simp add: load_def new_calls_def Let_def marks_ready_calls pack_calls split: sum.split)

lemma save_calls:
  assumes "heap w self = Some (Artifact a)"
    and "is_ready a"
    and "u_model a = PyRef r"
    and "heap w r = Some (Instance mro d)"
    and "CatBoostClassifier \<in> set mro"
  shows "new_calls w (snd (save lib self dst w)) =
           [Call_save_model r (os_path_join dst (name a @ u_model_extension a)) ''json'']"
  using assms
  by (simp add: save_def needs_ready_def model_file_path_def new_calls_def Let_def
        split: sum.split prod.split)

text \<open>
  A world in which the adapter at reference 0 has been packed with the classifier at
  reference 1.
\<close>

lemma packed_world_heap:
  "heap (snd (pack 0 (PyRef 1) PyNone (demo_world True))) 0
     = Some (Artifact \<lparr>name = ''model'', u_model_extension = ''.json'',
                       u_model = PyRef 1, is_ready = True\<rparr>)
   \<and> heap (snd (pack 0 (PyRef 1) PyNone (demo_world True))) 1
     = Some (Instance classifier_mro ''trees'')"
  by (simp add: pack_def marks_ready_def set_ready_def demo_world_def isinstance_def
        classifier_mro_def set_model_def)

text \<open>
  C2: with the library importable, \<^verbatim>\<open>pack\<close> of an argument that is not an instance of
  the classifier raises the invalid-argument condition and leaves the world as it was, so
  the held model reference is the one held before the call.
\<close>

theorem pack_wrong_type:
  assumes "catboost_importable w"
    and "\<not> isinstance w model CatBoostClassifier"
  shows "pack self model metadata w = (Inl (InvalidArgument invalid_argument_msg), w)
         \<and> get self (snd (pack self model metadata w)) = get self w"
  using assms by (simp add: pack_def marks_ready_def)

theorem pack_wrong_type_witness:
  "catboost_importable (demo_world True)
   \<and> \<not> isinstance (demo_world True) (PyRef 2) CatBoostClassifier
   \<and> pack 0 (PyRef 2) PyNone (demo_world True)
       = (Inl (InvalidArgument invalid_argument_msg), demo_world True)"
proof -
  have a: "catboost_importable (demo_world True)"
    by (simp add: demo_world_def)
  have b: "\<not> isinstance (demo_world True) (PyRef 2) CatBoostClassifier"
    by (simp add: demo_world_def isinstance_def)
  show ?thesis using a b pack_wrong_type [OF a b, of 0 PyNone] by simp
qed

text \<open>
  C3: with the library importable, \<^verbatim>\<open>pack\<close> of an instance of the classifier returns
  the adapter itself (the reference of the receiver), and \<^verbatim>\<open>get\<close> afterwards returns
  the very reference that was packed.
\<close>

theorem pack_then_get:
  assumes "catboost_importable w"
    and "isinstance w model CatBoostClassifier"
    and "heap w self = Some (Artifact a)"
  shows "fst (pack self model metadata w) = Inr (PyRef self)
         \<and> fst (get self (snd (pack self model metadata w))) = Inr model"
  using assms
  by (simp add: pack_def marks_ready_def set_ready_def set_model_def get_def needs_ready_def)

theorem pack_then_get_witness:
  "catboost_importable (demo_world True)
   \<and> isinstance (demo_world True) (PyRef 1) CatBoostClassifier
   \<and> fst (pack 0 (PyRef 1) PyNone (demo_world True)) = Inr (PyRef 0)
   \<and> fst (get 0 (snd (pack 0 (PyRef 1) PyNone (demo_world True)))) = Inr (PyRef 1)"
proof -
  have a: "catboost_importable (demo_world True)"
    by (simp add: demo_world_def)
  have b: "isinstance (demo_world True) (PyRef 1) CatBoostClassifier"
    by (simp add: demo_world_def isinstance_def classifier_mro_def)
  have c: "heap (demo_world True) 0
           = Some (Artifact \<lparr>name = ''model'', u_model_extension = ''.json'',
                             u_model = PyNone, is_ready = False\<rparr>)"
    by (simp add: demo_world_def)
  show ?thesis using a b pack_then_get [OF a b c, of PyNone] by simp
qed

text \<open>
  C8, as amended: on an adapter that has been packed or loaded \<^verbatim>\<open>get\<close> returns the
  held model reference; on an adapter that has not, such as one just constructed, the
  inherited guard raises \<^verbatim>\<open>FailedPrecondition\<close>. Either way \<^verbatim>\<open>get\<close> leaves the
  whole world (the name, the extension and the held reference of the adapter among it)
  as it was.
\<close>

theorem get_returns_held_reference:
  "(heap w self = Some (Artifact a) \<and> is_ready a \<longrightarrow> get self w = (Inr (u_model a), w))
   \<and> (heap w self = Some (Artifact a) \<and> \<not> is_ready a \<longrightarrow>
        get self w = (Inl FailedPrecondition, w))
   \<and> snd (get self w) = w
   \<and> get (fst (init nm ext w)) (snd (init nm ext w))
       = (Inl FailedPrecondition, snd (init nm ext w))"
  by (simp add: get_def needs_ready_def init_def Let_def split: option.split pyobj.split)

theorem get_returns_held_reference_witness:
  "heap (snd (pack 0 (PyRef 1) PyNone (demo_world True))) 0
     = Some (Artifact \<lparr>name = ''model'', u_model_extension = ''.json'',
                       u_model = PyRef 1, is_ready = True\<rparr>)
   \<and> get 0 (snd (pack 0 (PyRef 1) PyNone (demo_world True)))
     = (Inr (PyRef 1), snd (pack 0 (PyRef 1) PyNone (demo_world True)))
   \<and> heap (demo_world True) 0
     = Some (Artifact \<lparr>name = ''model'', u_model_extension = ''.json'',
                       u_model = PyNone, is_ready = False\<rparr>)
   \<and> get 0 (demo_world True) = (Inl FailedPrecondition, demo_world True)"
proof -
  let ?held = "\<lparr>name = ''model'', u_model_extension = ''.json'',
                 u_model = PyRef 1, is_ready = True\<rparr>"
  let ?new = "\<lparr>name = ''model'', u_model_extension = ''.json'',
                u_model = PyNone, is_ready = False\<rparr>"
  have h: "heap (snd (pack 0 (PyRef 1) PyNone (demo_world True))) 0 = Some (Artifact ?held)"
    by (simp add: pack_def marks_ready_def set_ready_def demo_world_def isinstance_def
          classifier_mro_def set_model_def)
  have n: "heap (demo_world True) 0 = Some (Artifact ?new)"
    by (simp add: demo_world_def)
  show ?thesis
    using h n
      get_returns_held_reference [of "snd (pack 0 (PyRef 1) PyNone (demo_world True))" 0 ?held]
      get_returns_held_reference [of "demo_world True" 0 ?new]
    by simp
qed

text \<open>
  The claim C8 as it is written fails: \<^verbatim>\<open>get\<close> on an adapter that has just been
  constructed, to which nothing has been packed, does not return \<^verbatim>\<open>None\<close>.
\<close>

theorem get_returns_held_reference_counterexample:
  "fst (get (fst (init ''model'' None (empty_world True)))
          (snd (init ''model'' None (empty_world True)))) = Inl FailedPrecondition
   \<and> fst (get (fst (init ''model'' None (empty_world True)))
          (snd (init ''model'' None (empty_world True)))) \<noteq> Inr PyNone"
  by (simp add: get_def needs_ready_def init_def empty_world_def Let_def)

text \<open>
  C9, as amended: \<^verbatim>\<open>save\<close> on an adapter that has not been packed or loaded (as
  after construction) raises \<^verbatim>\<open>FailedPrecondition\<close> from the inherited guard, which
  is neither the missing-dependency nor the invalid-argument condition, and leaves the
  world, the file system in it, as it was.
\<close>

theorem save_without_model:
  "(heap w self = Some (Artifact a) \<and> \<not> is_ready a
      \<longrightarrow> save lib self dst w = (Inl FailedPrecondition, w))
   \<and> save lib (fst (init nm ext w)) dst (snd (init nm ext w))
       = (Inl FailedPrecondition, snd (init nm ext w))"
  by (simp add: save_def needs_ready_def init_def Let_def)

theorem save_without_model_witness:
  "heap (demo_world True) 0
     = Some (Artifact \<lparr>name = ''model'', u_model_extension = ''.json'',
                       u_model = PyNone, is_ready = False\<rparr>)
   \<and> save text_lib 0 ''/bundle'' (demo_world True) = (Inl FailedPrecondition, demo_world True)"
proof -
  let ?new = "\<lparr>name = ''model'', u_model_extension = ''.json'',
                u_model = PyNone, is_ready = False\<rparr>"
  have h: "heap (demo_world True) 0 = Some (Artifact ?new)"
    by (simp add: demo_world_def)
  show ?thesis
    using h save_without_model [of "demo_world True" 0 ?new text_lib "''/bundle''"]
    by simp
qed

text \<open>
  The claim C9 as it is written fails: \<^verbatim>\<open>save\<close> on an adapter that has just been
  constructed and holds no model does not raise \<^verbatim>\<open>AttributeError\<close>.
\<close>

theorem save_without_model_counterexample:
  "heap (snd (init ''model'' None (empty_world True)))
      (fst (init ''model'' None (empty_world True)))
     = Some (Artifact \<lparr>name = ''model'', u_model_extension = ''.json'',
                       u_model = PyNone, is_ready = False\<rparr>)
   \<and> fst (save text_lib (fst (init ''model'' None (empty_world True))) ''/bundle''
          (snd (init ''model'' None (empty_world True)))) = Inl FailedPrecondition
   \<and> fst (save text_lib (fst (init ''model'' None (empty_world True))) ''/bundle''
          (snd (init ''model'' None (empty_world True)))) \<noteq> Inl (AttributeError ''save_model'')"
  by (simp add: save_def get_def needs_ready_def init_def empty_world_def Let_def)

text \<open>
  C10: in \<^verbatim>\<open>pack\<close> the import comes before the type check: without the library every
  argument, of whatever type, gets the missing-dependency condition, and the
  invalid-argument condition is only raised when the library is importable.
\<close>

theorem pack_import_before_type_check:
  "(\<not> catboost_importable w \<longrightarrow>
      fst (pack self model metadata w) = Inl (MissingDependencyException missing_dependency_msg))
   \<and> (fst (pack self model metadata w) = Inl (InvalidArgument msg) \<longrightarrow> catboost_importable w)"
  by (simp add: pack_def marks_ready_fst)

theorem pack_import_before_type_check_witness:
  "\<not> catboost_importable (demo_world False)
   \<and> \<not> isinstance (demo_world False) (PyRef 2) CatBoostClassifier
   \<and> fst (pack 0 (PyRef 2) PyNone (demo_world False))
       = Inl (MissingDependencyException missing_dependency_msg)
   \<and> fst (pack 0 (PyRef 2) PyNone (demo_world True)) = Inl (InvalidArgument invalid_argument_msg)
   \<and> catboost_importable (demo_world True)"
proof -
  have a: "\<not> catboost_importable (demo_world False)"
    by (simp add: demo_world_def)
  have b: "\<not> isinstance (demo_world False) (PyRef 2) CatBoostClassifier"
    by (simp add: demo_world_def isinstance_def)
  have c: "fst (pack 0 (PyRef 2) PyNone (demo_world True))
           = Inl (InvalidArgument invalid_argument_msg)"
    by (simp add: pack_def marks_ready_fst demo_world_def isinstance_def)
  show ?thesis
    using a b c
      pack_import_before_type_check [of "demo_world False" 0 "PyRef 2" PyNone]
      pack_import_before_type_check
        [of "demo_world True" 0 "PyRef 2" PyNone invalid_argument_msg]
    by simp
qed

text \<open>
  C1, as amended: without the library \<^verbatim>\<open>pack\<close> and \<^verbatim>\<open>load\<close> raise the
  missing-dependency condition and leave the world (the file system and the log of
  library calls in it) as it was. \<^verbatim>\<open>get\<close>, \<^verbatim>\<open>set_dependencies\<close> and
  \<^verbatim>\<open>save\<close> have no import and never raise the missing-dependency condition. None
  of them writes to the file system there: \<^verbatim>\<open>get\<close> and \<^verbatim>\<open>set_dependencies\<close>
  never do, and on an adapter that has not been packed or loaded, the only one there can
  be without the library, \<^verbatim>\<open>get\<close> and \<^verbatim>\<open>save\<close> raise
  \<^verbatim>\<open>FailedPrecondition\<close> and leave the world as it was.
\<close>

theorem library_unavailable:
  "(\<not> catboost_importable w \<longrightarrow>
       pack self model metadata w = (Inl (MissingDependencyException missing_dependency_msg), w)
     \<and> load lib self path w = (Inl (MissingDependencyException missing_dependency_msg), w))
   \<and> fst (get self w) \<noteq> Inl (MissingDependencyException msg)
   \<and> fst (set_dependencies self env w) \<noteq> Inl (MissingDependencyException msg)
   \<and> fst (save lib self path w) \<noteq> Inl (MissingDependencyException msg)
   \<and> snd (get self w) = w
   \<and> snd (snd (set_dependencies self env w)) = w
   \<and> (heap w self = Some (Artifact a) \<and> \<not> is_ready a \<longrightarrow>
        get self w = (Inl FailedPrecondition, w)
        \<and> save lib self path w = (Inl FailedPrecondition, w))"
  by (simp add: pack_def load_def marks_ready_def get_def set_dependencies_def save_def
        needs_ready_def model_file_path_def Let_def
        split: option.split pyobj.split pyval.split sum.split prod.split)

theorem library_unavailable_witness:
  "\<not> catboost_importable (demo_world False)
   \<and> pack 0 (PyRef 1) PyNone (demo_world False)
       = (Inl (MissingDependencyException missing_dependency_msg), demo_world False)
   \<and> load text_lib 0 ''/bundle'' (demo_world False)
       = (Inl (MissingDependencyException missing_dependency_msg), demo_world False)
   \<and> heap (demo_world False) 0
       = Some (Artifact \<lparr>name = ''model'', u_model_extension = ''.json'',
                         u_model = PyNone, is_ready = False\<rparr>)
   \<and> get 0 (demo_world False) = (Inl FailedPrecondition, demo_world False)
   \<and> save text_lib 0 ''/bundle'' (demo_world False) = (Inl FailedPrecondition, demo_world False)"
proof -
  let ?new = "\<lparr>name = ''model'', u_model_extension = ''.json'',
                u_model = PyNone, is_ready = False\<rparr>"
  have a: "\<not> catboost_importable (demo_world False)"
    by (simp add: demo_world_def)
  have h: "heap (demo_world False) 0 = Some (Artifact ?new)"
    by (simp add: demo_world_def)
  show ?thesis
    using a h
      library_unavailable
        [of "demo_world False" 0 "PyRef 1" PyNone text_lib "''/bundle''" _ _ ?new]
    by simp
qed

text \<open>
  The claim C1 as it is written fails: without the library, \<^verbatim>\<open>set_dependencies\<close>
  returns normally, and \<^verbatim>\<open>get\<close> and \<^verbatim>\<open>save\<close> raise
  \<^verbatim>\<open>FailedPrecondition\<close>, not the missing-dependency condition.
\<close>

theorem library_unavailable_counterexample:
  "\<not> catboost_importable (demo_world False)
   \<and> fst (set_dependencies 0 \<lparr>pip_packages = []\<rparr> (demo_world False)) = Inr PyNone
   \<and> fst (get 0 (demo_world False)) = Inl FailedPrecondition
   \<and> fst (save text_lib 0 ''/bundle'' (demo_world False)) = Inl FailedPrecondition"
  by (simp add: demo_world_def get_def set_dependencies_def save_def needs_ready_def)

text \<open>
  C6: the file path of the adapter is \<^verbatim>\<open>os.path.join\<close> of the base path and the name
  followed by the extension; for a base path that is not empty and does not end with a
  separator, and a name that does not start with one, that is
  \<^verbatim>\<open><base_path>/<name><extension>\<close>. An adapter constructed without an extension
  uses \<^verbatim>\<open>.json\<close>.
\<close>

theorem model_file_path_layout:
  "(heap w self = Some (Artifact a) \<longrightarrow>
      model_file_path self base_path w
        = Inr (os_path_join base_path (name a @ u_model_extension a)))
   \<and> (heap w self = Some (Artifact a) \<and> base_path \<noteq> [] \<and> \<not> endswith base_path ''/''
        \<and> \<not> startswith (name a @ u_model_extension a) ''/'' \<longrightarrow>
      model_file_path self base_path w
        = Inr (base_path @ ''/'' @ name a @ u_model_extension a))
   \<and> heap (snd (init nm None w)) (fst (init nm None w))
        = Some (Artifact \<lparr>name = nm, u_model_extension = ''.json'',
                          u_model = PyNone, is_ready = False\<rparr>)
   \<and> model_file_path (fst (init nm None w)) base_path (snd (init nm None w))
        = Inr (os_path_join base_path (nm @ ''.json''))"
  by (simp add: model_file_path_def os_path_join_def init_def Let_def)

theorem model_file_path_layout_witness:
  "heap (demo_world True) 0
     = Some (Artifact \<lparr>name = ''model'', u_model_extension = ''.json'',
                       u_model = PyNone, is_ready = False\<rparr>)
   \<and> \<not> endswith ''/bundle'' ''/''
   \<and> \<not> startswith ''model.json'' ''/''
   \<and> model_file_path 0 ''/bundle'' (demo_world True) = Inr ''/bundle/model.json''"
proof -
  let ?new = "\<lparr>name = ''model'', u_model_extension = ''.json'',
                u_model = PyNone, is_ready = False\<rparr>"
  have h: "heap (demo_world True) 0 = Some (Artifact ?new)"
    by (simp add: demo_world_def)
  have e: "\<not> endswith ''/bundle'' ''/''"
    by (simp add: endswith_def)
  have s: "\<not> startswith ''model.json'' ''/''"
    by (simp add: startswith_def)
  show ?thesis
    using h e s model_file_path_layout [of "demo_world True" 0 ?new "''/bundle''"]
    by (simp add: os_path_join_def)
qed

text \<open>
  C4: every \<^verbatim>\<open>load_model\<close> call that \<^verbatim>\<open>load\<close> makes asks for the format
  \<^verbatim>\<open>json\<close>, and with the library importable it makes exactly one, whatever the
  extension the adapter was constructed with.
\<close>

theorem load_requests_json:
  "set (load_formats (new_calls w (snd (load lib self path w)))) \<subseteq> {''json''}
   \<and> (catboost_importable w \<and> heap w self = Some (Artifact a) \<and> heap w (next_ref w) = None
        \<longrightarrow> load_formats (new_calls w (snd (load lib self path w))) = [''json''])"
proof
  show "set (load_formats (new_calls w (snd (load lib self path w)))) \<subseteq> {''json''}"
    using load_new_calls_cases [of w lib self path] by auto
next
  show "catboost_importable w \<and> heap w self = Some (Artifact a) \<and> heap w (next_ref w) = None
        \<longrightarrow> load_formats (new_calls w (snd (load lib self path w))) = [''json'']"
    by (simp add: load_calls)
qed

theorem load_requests_json_witness:
  "catboost_importable (snd (init ''model'' (Some ''.cbm'') (empty_world True)))
   \<and> heap (snd (init ''model'' (Some ''.cbm'') (empty_world True))) 0
       = Some (Artifact \<lparr>name = ''model'', u_model_extension = ''.cbm'',
                         u_model = PyNone, is_ready = False\<rparr>)
   \<and> heap (snd (init ''model'' (Some ''.cbm'') (empty_world True)))
        (next_ref (snd (init ''model'' (Some ''.cbm'') (empty_world True)))) = None
   \<and> load_formats (new_calls (snd (init ''model'' (Some ''.cbm'') (empty_world True)))
        (snd (load text_lib 0 ''/bundle'' (snd (init ''model'' (Some ''.cbm'') (empty_world True))))))
       = [''json'']"
proof -
  let ?w = "snd (init ''model'' (Some ''.cbm'') (empty_world True))"
  let ?new = "\<lparr>name = ''model'', u_model_extension = ''.cbm'',
                u_model = PyNone, is_ready = False\<rparr>"
  have a: "catboost_importable ?w"
    by (simp add: init_def empty_world_def Let_def)
  have b: "heap ?w 0 = Some (Artifact ?new)"
    by (simp add: init_def empty_world_def Let_def)
  have c: "heap ?w (next_ref ?w) = None"
    by (simp add: init_def empty_world_def Let_def)
  show ?thesis
    using a b c load_requests_json [of ?w text_lib 0 "''/bundle''" ?new]
    by blast
qed

text \<open>
  C5: for the same artifact name, extension and base directory, the path that
  \<^verbatim>\<open>load\<close> gives to \<^verbatim>\<open>load_model\<close> is the path that \<^verbatim>\<open>save\<close> gives to
  \<^verbatim>\<open>save_model\<close>. The adapter that is saved has been packed or loaded and holds a
  classifier.
\<close>

theorem save_load_same_path:
  assumes "catboost_importable w1"
    and "heap w1 s1 = Some (Artifact a1)"
    and "heap w1 (next_ref w1) = None"
    and "heap w2 s2 = Some (Artifact a2)"
    and "is_ready a2"
    and "u_model a2 = PyRef r"
    and "heap w2 r = Some (Instance mro d)"
    and "CatBoostClassifier \<in> set mro"
    and "name a1 = name a2"
    and "u_model_extension a1 = u_model_extension a2"
  shows "call_paths (new_calls w1 (snd (load libl s1 base w1)))
           = call_paths (new_calls w2 (snd (save libs s2 base w2)))
         \<and> call_paths (new_calls w2 (snd (save libs s2 base w2)))
           = [os_path_join base (name a2 @ u_model_extension a2)]"
  using assms(9,10)
  by (simp add: load_calls [OF assms(1,2,3)] save_calls [OF assms(4,5,6,7,8)])

theorem save_load_same_path_witness:
  "call_paths (new_calls (demo_world True) (snd (load text_lib 0 ''/bundle'' (demo_world True))))
     = call_paths (new_calls (snd (pack 0 (PyRef 1) PyNone (demo_world True)))
         (snd (save text_lib 0 ''/bundle'' (snd (pack 0 (PyRef 1) PyNone (demo_world True))))))
   \<and> call_paths (new_calls (snd (pack 0 (PyRef 1) PyNone (demo_world True)))
         (snd (save text_lib 0 ''/bundle'' (snd (pack 0 (PyRef 1) PyNone (demo_world True))))))
     = [''/bundle/model.json'']"
proof -
  let ?w2 = "snd (pack 0 (PyRef 1) PyNone (demo_world True))"
  let ?new = "\<lparr>name = ''model'', u_model_extension = ''.json'',
                u_model = PyNone, is_ready = False\<rparr>"
  let ?held = "\<lparr>name = ''model'', u_model_extension = ''.json'',
                 u_model = PyRef 1, is_ready = True\<rparr>"
  have a: "catboost_importable (demo_world True)"
    by (simp add: demo_world_def)
  have b: "heap (demo_world True) 0 = Some (Artifact ?new)"
    by (simp add: demo_world_def)
  have c: "heap (demo_world True) (next_ref (demo_world True)) = None"
    by (simp add: demo_world_def)
  have d: "heap ?w2 0 = Some (Artifact ?held)"
    using packed_world_heap by simp
  have rd: "is_ready ?held"
    by simp
  have e: "heap ?w2 1 = Some (Instance classifier_mro ''trees'')"
    using packed_world_heap by simp
  have f: "CatBoostClassifier \<in> set classifier_mro"
    by (simp add: classifier_mro_def)
  have j: "os_path_join ''/bundle'' ''model.json'' = ''/bundle/model.json''"
    by (simp add: os_path_join_def startswith_def endswith_def)
  show ?thesis
    using j save_load_same_path
      [OF a b c d rd _ e f, where libl = text_lib and libs = text_lib and base = "''/bundle''"]
    by simp
qed

text \<open>
  C7: with the library importable, \<^verbatim>\<open>load\<close> creates a classifier at a reference that
  was free, calls \<^verbatim>\<open>load_model\<close> on it with the path
  \<^verbatim>\<open>os.path.join(path, name + extension)\<close>, and, when that call returns, gives the
  result of \<^verbatim>\<open>pack\<close> on the loaded classifier: the adapter itself, which then holds the
  new classifier. A failure of \<^verbatim>\<open>load_model\<close> propagates instead and leaves the
  adapter as it was. The file system is not written.
\<close>

theorem load_steps:
  assumes "catboost_importable w"
    and "heap w self = Some (Artifact a)"
    and "heap w (next_ref w) = None"
  shows "new_calls w (snd (load lib self path w)) =
           [Call_CatBoostClassifier (next_ref w),
            Call_load_model (next_ref w) (os_path_join path (name a @ u_model_extension a))
              ''json'']
         \<and> (\<forall>d. load_model lib (new_classifier lib) (fs w)
                   (os_path_join path (name a @ u_model_extension a)) ''json'' = Inr d \<longrightarrow>
                load lib self path w =
                  pack self (PyRef (next_ref w)) PyNone
                    (w\<lparr>next_ref := Suc (next_ref w),
                       calls := calls w @
                         [Call_CatBoostClassifier (next_ref w),
                          Call_load_model (next_ref w)
                            (os_path_join path (name a @ u_model_extension a)) ''json''],
                       heap := (heap w)(next_ref w \<mapsto> Instance classifier_mro d)\<rparr>)
                \<and> fst (load lib self path w) = Inr (PyRef self)
                \<and> fst (get self (snd (load lib self path w))) = Inr (PyRef (next_ref w))
                \<and> heap (snd (load lib self path w)) (next_ref w)
                    = Some (Instance classifier_mro d))
         \<and> (\<forall>msg. load_model lib (new_classifier lib) (fs w)
                   (os_path_join path (name a @ u_model_extension a)) ''json'' = Inl msg \<longrightarrow>
                fst (load lib self path w) = Inl (CatBoostError msg)
                \<and> heap (snd (load lib self path w)) self = Some (Artifact a))
         \<and> fs (snd (load lib self path w)) = fs w"
proof -
  let ?clf = "next_ref w"
  let ?p = "os_path_join path (name a @ u_model_extension a)"
  have ne: "self \<noteq> ?clf"
    using assms(2,3) by (rule receiver_not_fresh)
  have cm: "CatBoostClassifier \<in> set classifier_mro"
    by (simp add: classifier_mro_def)
  have calls: "new_calls w (snd (load lib self path w)) =
      [Call_CatBoostClassifier ?clf, Call_load_model ?clf ?p ''json'']"
    by (rule load_calls [OF assms])
  have ok: "load lib self path w =
              pack self (PyRef ?clf) PyNone
                (w\<lparr>next_ref := Suc ?clf,
                   calls := calls w @
                     [Call_CatBoostClassifier ?clf, Call_load_model ?clf ?p ''json''],
                   heap := (heap w)(?clf \<mapsto> Instance classifier_mro d)\<rparr>)
            \<and> fst (load lib self path w) = Inr (PyRef self)
            \<and> fst (get self (snd (load lib self path w))) = Inr (PyRef ?clf)
            \<and> heap (snd (load lib self path w)) ?clf = Some (Instance classifier_mro d)"
    if "load_model lib (new_classifier lib) (fs w) ?p ''json'' = Inr d" for d
    using that assms(1,2) ne cm
    by (simp add: load_unfolded [OF assms] Let_def pack_def marks_ready_def set_ready_def
          isinstance_def set_model_def get_def needs_ready_def)
  have bad: "fst (load lib self path w) = Inl (CatBoostError msg)
            \<and> heap (snd (load lib self path w)) self = Some (Artifact a)"
    if "load_model lib (new_classifier lib) (fs w) ?p ''json'' = Inl msg" for msg
    using that assms(2) ne
    by (simp add: load_unfolded [OF assms] Let_def)
  have files: "fs (snd (load lib self path w)) = fs w"
    by (simp add: load_unfolded [OF assms] Let_def pack_fs split: sum.split)
  show ?thesis
    using calls ok bad files by blast
qed

theorem load_steps_witness:
  "catboost_importable ((demo_world True)\<lparr>fs := [''/bundle/model.json'' \<mapsto> ''saved trees'']\<rparr>)
   \<and> heap ((demo_world True)\<lparr>fs := [''/bundle/model.json'' \<mapsto> ''saved trees'']\<rparr>) 3 = None
   \<and> new_calls ((demo_world True)\<lparr>fs := [''/bundle/model.json'' \<mapsto> ''saved trees'']\<rparr>)
        (snd (load text_lib 0 ''/bundle''
           ((demo_world True)\<lparr>fs := [''/bundle/model.json'' \<mapsto> ''saved trees'']\<rparr>)))
       = [Call_CatBoostClassifier 3, Call_load_model 3 ''/bundle/model.json'' ''json'']
   \<and> fst (load text_lib 0 ''/bundle''
           ((demo_world True)\<lparr>fs := [''/bundle/model.json'' \<mapsto> ''saved trees'']\<rparr>))
       = Inr (PyRef 0)
   \<and> fst (get 0 (snd (load text_lib 0 ''/bundle''
           ((demo_world True)\<lparr>fs := [''/bundle/model.json'' \<mapsto> ''saved trees'']\<rparr>))))
       = Inr (PyRef 3)
   \<and> heap (snd (load text_lib 0 ''/bundle''
           ((demo_world True)\<lparr>fs := [''/bundle/model.json'' \<mapsto> ''saved trees'']\<rparr>))) 3
       = Some (Instance classifier_mro ''saved trees'')
   \<and> fst (load text_lib 0 ''/bundle'' (demo_world True)) = Inl (CatBoostError ''no such file'')
   \<and> heap (snd (load text_lib 0 ''/bundle'' (demo_world True))) 0
       = Some (Artifact \<lparr>name = ''model'', u_model_extension = ''.json'',
                         u_model = PyNone, is_ready = False\<rparr>)"
proof -
  let ?a = "\<lparr>name = ''model'', u_model_extension = ''.json'',
              u_model = PyNone, is_ready = False\<rparr>"
  let ?w = "(demo_world True)\<lparr>fs := [''/bundle/model.json'' \<mapsto> ''saved trees'']\<rparr>"
  have j: "os_path_join ''/bundle'' (name ?a @ u_model_extension ?a) = ''/bundle/model.json''"
    by (simp add: os_path_join_def startswith_def endswith_def)
  have a: "catboost_importable ?w" and a': "catboost_importable (demo_world True)"
    by (simp_all add: demo_world_def)
  have b: "heap ?w 0 = Some (Artifact ?a)" and b': "heap (demo_world True) 0 = Some (Artifact ?a)"
    by (simp_all add: demo_world_def)
  have c: "heap ?w (next_ref ?w) = None"
    and c': "heap (demo_world True) (next_ref (demo_world True)) = None"
    by (simp_all add: demo_world_def)
  have n: "next_ref ?w = 3" and n': "next_ref (demo_world True) = 3"
    by (simp_all add: demo_world_def)
  have found: "load_model text_lib (new_classifier text_lib) (fs ?w) ''/bundle/model.json'' ''json''
                 = Inr ''saved trees''"
    by (simp add: text_lib_def)
  have missing: "load_model text_lib (new_classifier text_lib) (fs (demo_world True))
                   ''/bundle/model.json'' ''json'' = Inl ''no such file''"
    by (simp add: text_lib_def demo_world_def)
  note found_steps = load_steps [OF a b c, of text_lib "''/bundle''", unfolded j n]
  note missing_steps = load_steps [OF a' b' c', of text_lib "''/bundle''", unfolded j n']
  have calls: "new_calls ?w (snd (load text_lib 0 ''/bundle'' ?w))
                = [Call_CatBoostClassifier 3, Call_load_model 3 ''/bundle/model.json'' ''json'']"
    using found_steps by (rule conjunct1)
  have ok: "fst (load text_lib 0 ''/bundle'' ?w) = Inr (PyRef 0)
            \<and> fst (get 0 (snd (load text_lib 0 ''/bundle'' ?w))) = Inr (PyRef 3)
            \<and> heap (snd (load text_lib 0 ''/bundle'' ?w)) 3
                = Some (Instance classifier_mro ''saved trees'')"
    using found_steps found by blast
  have bad: "fst (load text_lib 0 ''/bundle'' (demo_world True))
               = Inl (CatBoostError ''no such file'')
             \<and> heap (snd (load text_lib 0 ''/bundle'' (demo_world True))) 0 = Some (Artifact ?a)"
    using missing_steps missing by blast
  show ?thesis
    using a c [unfolded n] calls ok bad by simp
qed

end
